theory Spec2Isabelle
  imports Complex_Main "HOL-Library.Multiset" "HOL-Library.Char_ord" "HOL-Library.List_Lexorder"
begin

section \<open>Go string helpers used by the adapters and the example service\<close>

text \<open>
  Go strings are byte sequences; they are modelled as \<open>string\<close> (a list of
  characters).  \<open>strings.Contains s substr\<close> reports whether \<open>substr\<close> occurs in
  \<open>s\<close>: some position of \<open>s\<close> starts with \<open>substr\<close>.
\<close>

fun Contains :: "string \<Rightarrow> string \<Rightarrow> bool" where
  "Contains [] substr = (substr = [])"
| "Contains (c # cs) substr =
     (take (length substr) (c # cs) = substr \<or> Contains cs substr)"

text \<open>
  \<open>strings.ReplaceAll s old new\<close> replaces the non-overlapping occurrences of
  \<open>old\<close> in \<open>s\<close>, scanning from the left.  For an empty \<open>old\<close> Go inserts
  \<open>new\<close> before every character and at the end (characters of one byte).
\<close>

function ReplaceAll :: "string \<Rightarrow> string \<Rightarrow> string \<Rightarrow> string" where
  "ReplaceAll [] old new = (if old = [] then new else [])"
| "ReplaceAll (c # cs) old new =
     (if old = [] then new @ c # ReplaceAll cs old new
      else if take (length old) (c # cs) = old
        then new @ ReplaceAll (drop (length old) (c # cs)) old new
      else c # ReplaceAll cs old new)"
  by pat_completeness auto
termination
  by (relation "measure (\<lambda>(s, old, new). length s)") (auto simp: neq_Nil_conv)

section \<open>The example service: \<open>GreetingInputBody.Resolve\<close> (cmd/main.go)\<close>

text \<open>
  \<open>huma.ErrorDetail\<close> has the fields \<open>Message\<close>, \<open>Location\<close> and \<open>Value\<close>
  (an \<open>any\<close> in Go; the type of the value stored is a parameter here, and so is the
  type of the message, which the validator below fills with the violated constraint).
\<close>

record ('m, 'v) ErrorDetail =
  Location :: string
  Message :: 'm
  Value :: 'v

record GreetingInputBody =
  Suffix :: string
  Optional :: int

text \<open>
  \<open>Resolve\<close> has a pointer receiver, so it could assign to the body.  The model
  returns the error list together with the body as the call leaves it.
\<close>

definition Resolve ::
  "GreetingInputBody \<Rightarrow> (string, string) ErrorDetail list \<times> GreetingInputBody" where
  "Resolve b =
     (if Contains (Suffix b) ''err''
      then ([\<lparr>Location = ''body.suffix'', Message = ''Nested resolver works'',
              Value = Suffix b\<rparr>], b)
      else ([], b))"

section \<open>The gin adapter: \<open>ginAdapter.Handle\<close>\<close>

text \<open>
  The gin engine is the router's table of routes; \<open>router.Handle method path h\<close>
  adds one route.  The function registered wraps the gin context in a \<open>ginCtx\<close>
  and calls the huma handler with it.
\<close>

record 'c ginCtx =
  orig :: 'c

record ('c, 'r) gin_route =
  gin_method :: string
  gin_path :: string
  gin_handler :: "'c \<Rightarrow> 'r"

record ('c, 'r) ginAdapter =
  gin_router :: "('c, 'r) gin_route list"

definition gin_Handle ::
  "('c, 'r) ginAdapter \<Rightarrow> string \<Rightarrow> string \<Rightarrow> ('c ginCtx \<Rightarrow> 'r) \<Rightarrow> ('c, 'r) ginAdapter" where
  "gin_Handle a method path handler =
     (let path1 = ReplaceAll path ''{'' '':'';
          path2 = ReplaceAll path1 ''}'' ''''
      in a\<lparr>gin_router := gin_router a @
           [\<lparr>gin_method = method, gin_path = path2,
             gin_handler = (\<lambda>c. handler \<lparr>orig = c\<rparr>)\<rparr>]\<rparr>)"

section \<open>The gorilla/mux adapter: \<open>gMux.Handle\<close>\<close>

text \<open>
  Of \<open>huma.Operation\<close> the adapter reads \<open>Method\<close> and \<open>Path\<close>.  A request
  carries its method and URL path.  The response writer \<open>'w\<close> is the state a
  handler may change; \<open>invoked\<close> logs the contexts the huma handler was called with.
\<close>

record Operation =
  OperationID :: string
  Method :: string
  Path :: string

record http_Request =
  req_Method :: string
  req_Path :: string

record 'w gmuxContext =
  ctx_op :: Operation
  ctx_r :: http_Request
  ctx_w :: 'w

record 'w served =
  response :: 'w
  invoked :: "'w gmuxContext list"

record 'w mux_route =
  mux_path :: string
  mux_func :: "'w served \<Rightarrow> http_Request \<Rightarrow> 'w served"

record 'w gMux =
  mux_router :: "'w mux_route list"

text \<open>
  The function literal that \<open>Handle\<close> passes to \<open>router.HandleFunc\<close>: it
  compares the request's method with \<open>m = op.Method\<close> and calls the handler only
  when they are equal; there is no \<open>else\<close> branch.
\<close>

definition gmux_func ::
  "Operation \<Rightarrow> ('w gmuxContext \<Rightarrow> 'w) \<Rightarrow> 'w served \<Rightarrow> http_Request \<Rightarrow> 'w served" where
  "gmux_func op handler st r =
     (let m = Method op in
      if req_Method r = m
      then (let ctx = \<lparr>ctx_op = op, ctx_r = r, ctx_w = response st\<rparr>
            in \<lparr>response = handler ctx, invoked = invoked st @ [ctx]\<rparr>)
      else st)"

definition gmux_Handle ::
  "'w gMux \<Rightarrow> Operation \<Rightarrow> ('w gmuxContext \<Rightarrow> 'w) \<Rightarrow> 'w gMux" where
  "gmux_Handle a op handler =
     a\<lparr>mux_router := mux_router a @
          [\<lparr>mux_path = Path op, mux_func = gmux_func op handler\<rparr>]\<rparr>"

text \<open>
  \<open>gMux.ServeHTTP\<close> hands every request to the gorilla/mux router.  The router is
  a library outside the repository; of it the model takes what its documentation
  states.  A route made by \<open>HandleFunc\<close> with no further matcher (\<open>Handle\<close> adds
  none, in particular no \<open>Methods\<close>) matches a request when its path template
  matches the request's URL path, whatever the method.  The routes are tested in
  the order they were added and the first that matches serves the request; when
  none matches, the router's not-found handler answers.  Whether a template matches
  a path, and what the not-found handler writes, are parameters.
\<close>

record 'w mux_lib =
  path_matches :: "string \<Rightarrow> string \<Rightarrow> bool"
  not_found :: "'w served \<Rightarrow> http_Request \<Rightarrow> 'w served"

fun mux_dispatch ::
  "'w mux_lib \<Rightarrow> 'w mux_route list \<Rightarrow> 'w served \<Rightarrow> http_Request \<Rightarrow> 'w served" where
  "mux_dispatch lib [] st r = not_found lib st r"
| "mux_dispatch lib (rt # rts) st r =
     (if path_matches lib (mux_path rt) (req_Path r) then mux_func rt st r
      else mux_dispatch lib rts st r)"

definition gmux_ServeHTTP ::
  "'w mux_lib \<Rightarrow> 'w gMux \<Rightarrow> 'w served \<Rightarrow> http_Request \<Rightarrow> 'w served" where
  "gmux_ServeHTTP lib a st r = mux_dispatch lib (mux_router a) st r"

text \<open>
  The two operations that \<open>RegisterRoutes\<close> (cmd/main.go) declares on the path
  \<open>/patch-test\<close>, in the order it registers them, with handlers that write a line
  to the response; and a router library whose templates without variables match
  the equal path and whose not-found handler writes a line.
\<close>

definition patch_get_op :: Operation where
  "patch_get_op = \<lparr>OperationID = ''patch-get'', Method = ''GET'', Path = ''/patch-test''\<rparr>"

definition patch_put_op :: Operation where
  "patch_put_op = \<lparr>OperationID = ''patch-put'', Method = ''PUT'', Path = ''/patch-test''\<rparr>"

definition exact_paths :: "string list mux_lib" where
  "exact_paths =
     \<lparr>path_matches = (\<lambda>template path. template = path),
      not_found = (\<lambda>st r. st\<lparr>response := response st @ [''404 page not found'']\<rparr>)\<rparr>"

definition patch_test_mux :: "string list gMux" where
  "patch_test_mux =
     gmux_Handle
       (gmux_Handle \<lparr>mux_router = []\<rparr> patch_get_op (\<lambda>c. ctx_w c @ [''got'']))
       patch_put_op (\<lambda>c. ctx_w c @ [''put''])"

section \<open>Decoded JSON values and Schema Nodes\<close>

text \<open>
  The validator (\<open>huma.Validate\<close>), the registry and the patch generator are called
  by the sources at hand but defined elsewhere in the repository.  The definitions
  of this and the next sections that carry the remark \<open>Modelled from the spec\<close> follow
  the specification's sections 3 and 4; \<open>validateThing\<close> at the end of the validator
  section is translated from its source.
\<close>

text \<open>
  Modelled from the spec: the value the validator receives, an already decoded JSON
  document.  A number is an exact rational, a string a byte sequence, an object the
  list of its members (a decoded object has each key once; \<open>map_of\<close> looks a key up).
\<close>

datatype json =
    JNull
  | JBool bool
  | JNum rat
  | JStr string
  | JArr "json list"
  | JObj "(string \<times> json) list"

text \<open>Modelled from the spec: the values of a Schema Node's \<open>type\<close>.\<close>

datatype jtype = TString | TInteger | TNumber | TBoolean | TArray | TObject | TNull

text \<open>
  Modelled from the spec: the fields of a Schema Node that do not hold child nodes
  (format, enum, the numeric, string, array and object bounds, and the fields that
  only document).
\<close>

record constraints =
  c_format :: "string option"
  c_enum :: "json list option"
  c_minimum :: "rat option"
  c_maximum :: "rat option"
  c_exclusiveMinimum :: "rat option"
  c_exclusiveMaximum :: "rat option"
  c_multipleOf :: "rat option"
  c_minLength :: "nat option"
  c_maxLength :: "nat option"
  c_pattern :: "string option"
  c_minItems :: "nat option"
  c_maxItems :: "nat option"
  c_uniqueItems :: bool
  c_minProperties :: "nat option"
  c_maxProperties :: "nat option"
  c_default :: "json option"
  c_examples :: "json list"
  c_readOnly :: bool
  c_writeOnly :: bool
  c_deprecated :: bool

text \<open>
  Modelled from the spec: \<open>additionalProperties\<close> is absent, explicitly false, or the
  node of a map's values.
\<close>

datatype 'a additional = AnyAdditional | NoAdditional | AdditionalOf 'a

text \<open>
  Modelled from the spec: a Schema Node, or a named pointer into the registry's
  namespace (\<open>Ref\<close>).  \<open>n_properties\<close> is in the order the schema declares.
\<close>

datatype schema =
    Ref string
  | Node (n_type: "jtype option") (n_nullable: bool) (n_cons: constraints)
      (n_items: "schema option") (n_properties: "(string \<times> schema) list")
      (n_required: "string list") (n_additional: "schema additional")

text \<open>
  Modelled from the spec: the constraint an error detail reports.  The spec fixes no
  message texts, so the \<open>message\<close> of a validation error is the constraint itself; a
  missing required property and an unexpected property carry the property's name.
\<close>

datatype ckind =
    CType | CEnum
  | CMinimum | CMaximum | CExclusiveMinimum | CExclusiveMaximum | CMultipleOf
  | CMinLength | CMaxLength | CPattern
  | CMinItems | CMaxItems | CUniqueItems
  | CMinProperties | CMaxProperties
  | CRequired string | CAdditional string
  | CFormat

text \<open>
  Modelled from the spec: the two string-shape tests the spec leaves to the host
  (whether a string matches a \<open>pattern\<close>, whether it has the shape of a \<open>format\<close>)
  are parameters of the validator.
\<close>

record checkers =
  pattern_ok :: "string \<Rightarrow> string \<Rightarrow> bool"
  format_ok :: "string \<Rightarrow> string \<Rightarrow> bool"

type_synonym verror = "(ckind, json option) ErrorDetail"

type_synonym registry_map = "(string \<times> schema) list"

section \<open>The validator\<close>

text \<open>Modelled from the spec: the runtime JSON type of a value.\<close>

fun kind_of :: "json \<Rightarrow> jtype" where
  "kind_of JNull = TNull"
| "kind_of (JBool b) = TBoolean"
| "kind_of (JNum q) = TNumber"
| "kind_of (JStr s) = TString"
| "kind_of (JArr xs) = TArray"
| "kind_of (JObj kvs) = TObject"

text \<open>Modelled from the spec: a number without fractional part.\<close>

definition is_integral :: "rat \<Rightarrow> bool" where
  "is_integral q = (q = of_int \<lfloor>q\<rfloor>)"

text \<open>
  Modelled from the spec: whether a value's runtime type matches a declared type
  (\<open>integer\<close> takes the integral numbers, \<open>number\<close> every number).
\<close>

fun type_matches :: "jtype \<Rightarrow> json \<Rightarrow> bool" where
  "type_matches TInteger (JNum q) = is_integral q"
| "type_matches TNumber (JNum q) = True"
| "type_matches t v = (kind_of v = t)"

text \<open>
  Modelled from the spec: step 1, the type check with the nullable union.  A node
  that declares no type (as the enum example of section 8) has nothing to mismatch.
\<close>

fun type_ok :: "jtype option \<Rightarrow> bool \<Rightarrow> json \<Rightarrow> bool" where
  "type_ok None nullable v = True"
| "type_ok (Some t) nullable v = (type_matches t v \<or> (nullable \<and> v = JNull))"

text \<open>
  Modelled from the spec: JSON normalization for \<open>uniqueItems\<close>; the members of
  every object are put in the order of their keys.
\<close>

fun canonical :: "json \<Rightarrow> json" where
  "canonical (JArr xs) = JArr (map canonical xs)"
| "canonical (JObj kvs) = JObj (sort_key fst (map (\<lambda>kv. (fst kv, canonical (snd kv))) kvs))"
| "canonical v = v"

text \<open>Modelled from the spec: the decimal digits of an array index in a path.\<close>

definition digit :: "nat \<Rightarrow> char" where
  "digit d = ''0123456789'' ! d"

function show_nat :: "nat \<Rightarrow> string" where
  "show_nat n = (if n < 10 then [digit n] else show_nat (n div 10) @ [digit (n mod 10)])"
  by pat_completeness auto
termination
  by (relation "measure id") auto

text \<open>Modelled from the spec: the path \<open><prefix>.<name>\<close> of a property.\<close>

definition push_name :: "string \<Rightarrow> string \<Rightarrow> string" where
  "push_name p name = p @ ''.'' @ name"

text \<open>Modelled from the spec: the path \<open><prefix>[<index>]\<close> of an array element.\<close>

definition push_index :: "string \<Rightarrow> nat \<Rightarrow> string" where
  "push_index p i = p @ ''['' @ show_nat i @ '']''"

text \<open>Modelled from the spec: one Error Detail.\<close>

definition err :: "string \<Rightarrow> ckind \<Rightarrow> json option \<Rightarrow> verror" where
  "err p c v = \<lparr>Location = p, Message = c, Value = v\<rparr>"

text \<open>
  Modelled from the spec: one independent check; it emits one error, with the
  offending value, when the constraint is violated.
\<close>

definition check :: "bool \<Rightarrow> string \<Rightarrow> ckind \<Rightarrow> json \<Rightarrow> verror list" where
  "check violated p c v = (if violated then [err p c (Some v)] else [])"

text \<open>Modelled from the spec: step 2, the enum check.\<close>

definition enum_errs :: "constraints \<Rightarrow> json \<Rightarrow> string \<Rightarrow> verror list" where
  "enum_errs c v p =
     (case c_enum c of None \<Rightarrow> [] | Some vs \<Rightarrow> check (v \<notin> set vs) p CEnum v)"

text \<open>
  Modelled from the spec: step 3 for a number, every bound checked on its own.  (The
  spec says nothing of a \<open>multipleOf\<close> of zero; here \<open>q / 0 = 0\<close> and the check
  passes.)
\<close>

definition numeric_errs :: "constraints \<Rightarrow> rat \<Rightarrow> string \<Rightarrow> verror list" where
  "numeric_errs c q p =
     (case c_minimum c of None \<Rightarrow> [] | Some m \<Rightarrow> check (q < m) p CMinimum (JNum q)) @
     (case c_maximum c of None \<Rightarrow> [] | Some m \<Rightarrow> check (m < q) p CMaximum (JNum q)) @
     (case c_exclusiveMinimum c of None \<Rightarrow> []
      | Some m \<Rightarrow> check (q \<le> m) p CExclusiveMinimum (JNum q)) @
     (case c_exclusiveMaximum c of None \<Rightarrow> []
      | Some m \<Rightarrow> check (m \<le> q) p CExclusiveMaximum (JNum q)) @
     (case c_multipleOf c of None \<Rightarrow> []
      | Some m \<Rightarrow> check (\<not> is_integral (q / m)) p CMultipleOf (JNum q))"

text \<open>Modelled from the spec: step 3 for a string (length in bytes, pattern).\<close>

definition string_errs :: "checkers \<Rightarrow> constraints \<Rightarrow> string \<Rightarrow> string \<Rightarrow> verror list" where
  "string_errs K c s p =
     (case c_minLength c of None \<Rightarrow> [] | Some n \<Rightarrow> check (length s < n) p CMinLength (JStr s)) @
     (case c_maxLength c of None \<Rightarrow> [] | Some n \<Rightarrow> check (n < length s) p CMaxLength (JStr s)) @
     (case c_pattern c of None \<Rightarrow> []
      | Some pat \<Rightarrow> check (\<not> pattern_ok K pat s) p CPattern (JStr s))"

text \<open>Modelled from the spec: step 3 for an array (length, uniqueness).\<close>

definition array_errs :: "constraints \<Rightarrow> json list \<Rightarrow> string \<Rightarrow> verror list" where
  "array_errs c xs p =
     (case c_minItems c of None \<Rightarrow> [] | Some n \<Rightarrow> check (length xs < n) p CMinItems (JArr xs)) @
     (case c_maxItems c of None \<Rightarrow> [] | Some n \<Rightarrow> check (n < length xs) p CMaxItems (JArr xs)) @
     check (c_uniqueItems c \<and> \<not> distinct (map canonical xs)) p CUniqueItems (JArr xs)"

text \<open>Modelled from the spec: step 3 for an object (property count).\<close>

definition object_errs :: "constraints \<Rightarrow> (string \<times> json) list \<Rightarrow> string \<Rightarrow> verror list" where
  "object_errs c kvs p =
     (case c_minProperties c of None \<Rightarrow> []
      | Some n \<Rightarrow> check (length kvs < n) p CMinProperties (JObj kvs)) @
     (case c_maxProperties c of None \<Rightarrow> []
      | Some n \<Rightarrow> check (n < length kvs) p CMaxProperties (JObj kvs))"

text \<open>
  Modelled from the spec: step 4, one error per required name that is missing, at
  the path \<open><prefix>.<name>\<close>; there is no offending literal to report.
\<close>

definition required_errs :: "string list \<Rightarrow> (string \<times> json) list \<Rightarrow> string \<Rightarrow> verror list" where
  "required_errs req kvs p =
     concat (map (\<lambda>name. if map_of kvs name = None
                           then [err (push_name p name) (CRequired name) None] else []) req)"

text \<open>
  Modelled from the spec: step 4, when \<open>additionalProperties\<close> is explicitly false
  each name the schema does not declare is its own error; otherwise undeclared
  properties are accepted.
\<close>

definition additional_errs ::
  "schema additional \<Rightarrow> (string \<times> schema) list \<Rightarrow> (string \<times> json) list \<Rightarrow> string
     \<Rightarrow> verror list" where
  "additional_errs addl props kvs p =
     (if addl = NoAdditional
      then concat (map (\<lambda>kv. if map_of props (fst kv) = None
                               then [err (push_name p (fst kv)) (CAdditional (fst kv)) (Some (snd kv))]
                               else []) kvs)
      else [])"

text \<open>Modelled from the spec: step 5, the format check of a string.\<close>

definition format_errs :: "checkers \<Rightarrow> constraints \<Rightarrow> json \<Rightarrow> string \<Rightarrow> verror list" where
  "format_errs K c v p =
     (case v of
        JStr s \<Rightarrow> (case c_format c of None \<Rightarrow> []
                   | Some f \<Rightarrow> check (\<not> format_ok K f s) p CFormat v)
      | _ \<Rightarrow> [])"

text \<open>Modelled from the spec: whether a schema is a named pointer.\<close>

fun isRef :: "schema \<Rightarrow> bool" where
  "isRef (Ref n) = True"
| "isRef _ = False"

lemma size_arr_elem: "x \<in> set xs \<Longrightarrow> size x < size (JArr xs)"
  by (induction xs) auto

lemma size_obj_elem: "(k, x) \<in> set kvs \<Longrightarrow> size x < size (JObj kvs)"
  by (induction kvs) auto

text \<open>
  Modelled from the spec: \<open>validate(schemaNode, value, pathPrefix)\<close>, section 4.4.
  The registry's map is an argument, as in the call \<open>huma.Validate(reg, s, ...)\<close> of
  \<open>validateThing\<close>: a named pointer is followed to the built node it names (one that
  names no built node yields no error; the registry never produces one).  On a node
  the steps run in the spec's order.  A type mismatch emits one error and skips the
  type-specific checks, the structural recursion and the format check of this node;
  the enum check is not type-specific and runs in either case.  After a passed type
  check the checks that belong to the value's runtime type run, each on its own; the
  properties present in the value are visited in the schema's order, the elements
  of an array in index order.  Every list of errors is appended, none is dropped.
\<close>

function validate ::
  "checkers \<Rightarrow> registry_map \<Rightarrow> schema \<Rightarrow> json \<Rightarrow> string \<Rightarrow> verror list" where
  "validate K reg (Ref n) v p =
     (case map_of reg n of
        None \<Rightarrow> []
      | Some s \<Rightarrow> if isRef s then [] else validate K reg s v p)"
| "validate K reg (Node ty nullable c items props req addl) v p =
     (if \<not> type_ok ty nullable v then check True p CType v @ enum_errs c v p
      else enum_errs c v p @
        (case v of
           JNum q \<Rightarrow> numeric_errs c q p
         | JStr s \<Rightarrow> string_errs K c s p
         | JArr xs \<Rightarrow>
             array_errs c xs p @
             (case items of
                None \<Rightarrow> []
              | Some it \<Rightarrow>
                  concat (map (\<lambda>ix. validate K reg it (snd ix) (push_index p (fst ix)))
                            (zip [0..<length xs] xs)))
         | JObj kvs \<Rightarrow>
             object_errs c kvs p @
             required_errs req kvs p @
             concat (map (\<lambda>nc. case map_of kvs (fst nc) of
                                  None \<Rightarrow> []
                                | Some x \<Rightarrow> validate K reg (snd nc) x (push_name p (fst nc)))
                       props) @
             additional_errs addl props kvs p
         | _ \<Rightarrow> []) @
        format_errs K c v p)"
  by pat_completeness auto
termination
proof (relation "measure (\<lambda>(K, reg, s, v, p). 2 * size v + (if isRef s then 1 else 0))",
    goal_cases)
  case 1
  show ?case by simp
next
  case (2 K reg n v p s)
  then show ?case by simp
next
  case (3 K reg ty nullable c items props req addl v p xs it ix)
  then have "snd ix \<in> set xs" by (cases ix) (auto dest: set_zip_rightD)
  then have "size (snd ix) < size (JArr xs)" by (rule size_arr_elem)
  with 3 show ?case by simp
next
  case (4 K reg ty nullable c items props req addl v p kvs nc x)
  then have "(fst nc, x) \<in> set kvs" by (auto dest: map_of_SomeD)
  then have "size x < size (JObj kvs)" by (rule size_obj_elem)
  with 4 show ?case by simp
qed

subsection \<open>\<open>validateThing\<close> (the validation example)\<close>




section \<open>What it means to satisfy a schema, and to violate a constraint\<close>

text \<open>
  Modelled from the spec: the node a schema stands for, a named pointer resolved
  through the registry's map.
\<close>

definition resolve :: "registry_map \<Rightarrow> schema \<Rightarrow> schema option" where
  "resolve reg s =
     (case s of
        Ref n \<Rightarrow> (case map_of reg n of
                    None \<Rightarrow> None
                  | Some s' \<Rightarrow> if isRef s' then None else Some s')
      | _ \<Rightarrow> Some s)"



text \<open>
  Modelled from the spec: a node's type-specific constraints and its children are
  checkable on a value only when the value passes the node's type check (step 1).
\<close>

definition applies :: "schema \<Rightarrow> json \<Rightarrow> bool" where
  "applies nd v = type_ok (n_type nd) (n_nullable nd) v"


text \<open>
  Modelled from the spec: when a value violates one constraint of one node, stated
  constraint by constraint and without reference to the validator's order.
\<close>

fun violated :: "checkers \<Rightarrow> schema \<Rightarrow> json \<Rightarrow> ckind \<Rightarrow> bool" where
  "violated K nd v CType = (\<not> applies nd v)"
| "violated K nd v CEnum = (\<exists>vs. c_enum (n_cons nd) = Some vs \<and> v \<notin> set vs)"
| "violated K nd v CMinimum =
     (applies nd v \<and> (\<exists>q m. v = JNum q \<and> c_minimum (n_cons nd) = Some m \<and> q < m))"
| "violated K nd v CMaximum =
     (applies nd v \<and> (\<exists>q m. v = JNum q \<and> c_maximum (n_cons nd) = Some m \<and> m < q))"
| "violated K nd v CExclusiveMinimum =
     (applies nd v \<and> (\<exists>q m. v = JNum q \<and> c_exclusiveMinimum (n_cons nd) = Some m \<and> q \<le> m))"
| "violated K nd v CExclusiveMaximum =
     (applies nd v \<and> (\<exists>q m. v = JNum q \<and> c_exclusiveMaximum (n_cons nd) = Some m \<and> m \<le> q))"
| "violated K nd v CMultipleOf =
     (applies nd v \<and>
      (\<exists>q m. v = JNum q \<and> c_multipleOf (n_cons nd) = Some m \<and> \<not> is_integral (q / m)))"
| "violated K nd v CMinLength =
     (applies nd v \<and> (\<exists>s n. v = JStr s \<and> c_minLength (n_cons nd) = Some n \<and> length s < n))"
| "violated K nd v CMaxLength =
     (applies nd v \<and> (\<exists>s n. v = JStr s \<and> c_maxLength (n_cons nd) = Some n \<and> n < length s))"
| "violated K nd v CPattern =
     (applies nd v \<and>
      (\<exists>s pat. v = JStr s \<and> c_pattern (n_cons nd) = Some pat \<and> \<not> pattern_ok K pat s))"
| "violated K nd v CMinItems =
     (applies nd v \<and> (\<exists>xs n. v = JArr xs \<and> c_minItems (n_cons nd) = Some n \<and> length xs < n))"
| "violated K nd v CMaxItems =
     (applies nd v \<and> (\<exists>xs n. v = JArr xs \<and> c_maxItems (n_cons nd) = Some n \<and> n < length xs))"
| "violated K nd v CUniqueItems =
     (applies nd v \<and> c_uniqueItems (n_cons nd) \<and>
      (\<exists>xs i j. v = JArr xs \<and> i < j \<and> j < length xs \<and>
         canonical (xs ! i) = canonical (xs ! j)))"
| "violated K nd v CMinProperties =
     (applies nd v \<and>
      (\<exists>kvs n. v = JObj kvs \<and> c_minProperties (n_cons nd) = Some n \<and> length kvs < n))"
| "violated K nd v CMaxProperties =
     (applies nd v \<and>
      (\<exists>kvs n. v = JObj kvs \<and> c_maxProperties (n_cons nd) = Some n \<and> n < length kvs))"
| "violated K nd v (CRequired name) =
     (applies nd v \<and>
      (\<exists>kvs. v = JObj kvs \<and> name \<in> set (n_required nd) \<and> name \<notin> fst ` set kvs))"
| "violated K nd v (CAdditional name) =
     (applies nd v \<and> n_additional nd = NoAdditional \<and>
      (\<exists>kvs. v = JObj kvs \<and> name \<in> fst ` set kvs \<and> name \<notin> fst ` set (n_properties nd)))"
| "violated K nd v CFormat =
     (applies nd v \<and>
      (\<exists>s f. v = JStr s \<and> c_format (n_cons nd) = Some f \<and> \<not> format_ok K f s))"


















definition once :: "bool \<Rightarrow> nat" where
  "once b = (if b then 1 else 0)"

text \<open>Example schemas and checkers for the concrete instances below.\<close>

definition no_cons :: constraints where
  "no_cons = \<lparr>c_format = None, c_enum = None, c_minimum = None, c_maximum = None,
       c_exclusiveMinimum = None, c_exclusiveMaximum = None, c_multipleOf = None,
       c_minLength = None, c_maxLength = None, c_pattern = None, c_minItems = None,
       c_maxItems = None, c_uniqueItems = False, c_minProperties = None,
       c_maxProperties = None, c_default = None, c_examples = [], c_readOnly = False,
       c_writeOnly = False, c_deprecated = False\<rparr>"


definition lax :: checkers where
  "lax = \<lparr>pattern_ok = (\<lambda>pat s. True), format_ok = (\<lambda>f s. True)\<rparr>"




section \<open>The patch generator\<close>

text \<open>
  \<open>autopatch.AutoPatch\<close> is called by \<open>main\<close> (cmd/main.go) and defined elsewhere in
  the repository; this section follows the specification's section 4.5 and the
  content-type dispatch of section 6.
\<close>

text \<open>Modelled from the spec: the three merge strategies.\<close>

datatype strategy = JSONMergePatch | ShorthandMergePatch | JSONPatch

text \<open>
  Modelled from the spec: the content-type dispatch.  The header is absent
  (\<open>None\<close>) or has a value; generic JSON is \<open>application/json\<close>.  The spec does not
  name the vendor shorthand content type, so it is a parameter.  For any other
  content type the spec names no strategy, and none is selected.
\<close>

definition mergeStrategy :: "string \<Rightarrow> string option \<Rightarrow> strategy option" where
  "mergeStrategy shorthandType contentType =
     (case contentType of
        None \<Rightarrow> Some JSONMergePatch
      | Some t \<Rightarrow>
          if t = ''application/merge-patch+json'' \<or> t = ''application/json''
            then Some JSONMergePatch
          else if t = ''application/json-patch+json'' then Some JSONPatch
          else if t = shorthandType then Some ShorthandMergePatch
          else None)"

text \<open>
  Modelled from the spec: removing and setting a member of an object, for JSON Merge
  Patch.  A member that exists keeps its place; a new one is added at the end.
\<close>

definition member_del :: "string \<Rightarrow> (string \<times> json) list \<Rightarrow> (string \<times> json) list" where
  "member_del k kvs = filter (\<lambda>kv. fst kv \<noteq> k) kvs"

fun member_set :: "string \<Rightarrow> json \<Rightarrow> (string \<times> json) list \<Rightarrow> (string \<times> json) list" where
  "member_set k v [] = [(k, v)]"
| "member_set k v (kv # kvs) = (if fst kv = k then (k, v) # kvs else kv # member_set k v kvs)"

text \<open>
  Modelled from the spec: JSON Merge Patch (RFC 7386, which the spec names).  A
  patch that is not an object replaces the target.  A patch that is an object is
  applied member by member to the target (to the empty object when the target is
  not an object): a null member removes the name, any other member is merged into
  the target's value of that name.
\<close>

fun mergePatch :: "json \<Rightarrow> json \<Rightarrow> json"
  and mergeMembers :: "(string \<times> json) list \<Rightarrow> (string \<times> json) list \<Rightarrow> (string \<times> json) list"
  where
  "mergePatch target (JObj ps) =
     JObj (mergeMembers (case target of JObj ts \<Rightarrow> ts | _ \<Rightarrow> []) ps)"
| "mergePatch target JNull = JNull"
| "mergePatch target (JBool b) = JBool b"
| "mergePatch target (JNum q) = JNum q"
| "mergePatch target (JStr s) = JStr s"
| "mergePatch target (JArr xs) = JArr xs"
| "mergeMembers ts [] = ts"
| "mergeMembers ts (kv # ps) =
     mergeMembers
       (if snd kv = JNull then member_del (fst kv) ts
        else member_set (fst kv)
               (mergePatch (case map_of ts (fst kv) of None \<Rightarrow> JNull | Some t \<Rightarrow> t) (snd kv)) ts)
       ps"

text \<open>
  Modelled from the spec: what GET's handler yields (the current representation and
  the conditional-request headers of its response) and what PUT's handler logic
  receives (the candidate, and the headers propagated as preconditions).
\<close>

record get_result =
  g_body :: json
  g_etag :: "string option"
  g_last_modified :: "string option"

record put_request =
  p_body :: json
  p_if_match :: "string option"
  p_if_unmodified_since :: "string option"

text \<open>Modelled from the spec: the incoming patch payload, raw bytes and content type.\<close>

record patch_request =
  pr_content_type :: "string option"
  pr_body :: string

text \<open>
  Modelled from the spec: the collaborators the spec leaves external: the vendor
  shorthand content type, and for each strategy the parser of the patch body; for
  JSON Patch also the application of the parsed operation list to a document.
\<close>

record 'o patch_env =
  shorthand_type :: string
  parse_json :: "string \<Rightarrow> json option"
  parse_shorthand :: "string \<Rightarrow> json option"
  parse_json_patch :: "string \<Rightarrow> 'o option"
  apply_json_patch :: "'o \<Rightarrow> json \<Rightarrow> json option"

text \<open>Modelled from the spec: the client errors of a generated PATCH.\<close>

datatype client_error =
    UnsupportedMediaType
  | UnparsablePatch
  | PatchNotApplicable
  | InvalidCandidate "verror list"

text \<open>
  Modelled from the spec: the result of one PATCH request: a client error or the
  response of PUT's handler, with the log of the calls made to PUT's handler.
\<close>

record 'r patch_response =
  outcome :: "client_error + 'r"
  put_calls :: "put_request list"

text \<open>Modelled from the spec: the strategy chosen for a request.\<close>

definition chosen_strategy :: "'o patch_env \<Rightarrow> patch_request \<Rightarrow> strategy option" where
  "chosen_strategy env req = mergeStrategy (shorthand_type env) (pr_content_type req)"

text \<open>
  Modelled from the spec: applying the patch to the current representation gives
  the candidate; a body the chosen strategy cannot parse is a client error.
\<close>

definition candidate :: "'o patch_env \<Rightarrow> json \<Rightarrow> patch_request \<Rightarrow> client_error + json" where
  "candidate env current req =
     (case chosen_strategy env req of
        None \<Rightarrow> Inl UnsupportedMediaType
      | Some JSONMergePatch \<Rightarrow>
          (case parse_json env (pr_body req) of
             None \<Rightarrow> Inl UnparsablePatch
           | Some patch \<Rightarrow> Inr (mergePatch current patch))
      | Some ShorthandMergePatch \<Rightarrow>
          (case parse_shorthand env (pr_body req) of
             None \<Rightarrow> Inl UnparsablePatch
           | Some patch \<Rightarrow> Inr (mergePatch current patch))
      | Some JSONPatch \<Rightarrow>
          (case parse_json_patch env (pr_body req) of
             None \<Rightarrow> Inl UnparsablePatch
           | Some ops \<Rightarrow>
               (case apply_json_patch env ops current of
                  None \<Rightarrow> Inl PatchNotApplicable
                | Some c \<Rightarrow> Inr c)))"

text \<open>
  Modelled from the spec: a generated PATCH at request time.  The current
  representation comes from GET's handler; the candidate is validated against the
  resource's output schema node under the path \<open>body\<close>; only a candidate without
  errors is forwarded to PUT's handler logic, with the conditional-request headers
  of GET's response.
\<close>

definition patchHandler ::
  "'o patch_env \<Rightarrow> checkers \<Rightarrow> registry_map \<Rightarrow> schema \<Rightarrow> get_result \<Rightarrow> (put_request \<Rightarrow> 'r)
     \<Rightarrow> patch_request \<Rightarrow> 'r patch_response" where
  "patchHandler env K reg outSchema got put req =
     (case candidate env (g_body got) req of
        Inl e \<Rightarrow> \<lparr>outcome = Inl e, put_calls = []\<rparr>
      | Inr c \<Rightarrow>
          (case validate K reg outSchema c ''body'' of
             [] \<Rightarrow>
               (let fwd = \<lparr>p_body = c, p_if_match = g_etag got,
                           p_if_unmodified_since = g_last_modified got\<rparr>
                in \<lparr>outcome = Inr (put fwd), put_calls = [fwd]\<rparr>)
           | e # es \<Rightarrow> \<lparr>outcome = Inl (InvalidCandidate (e # es)), put_calls = []\<rparr>))"

text \<open>
  The resource of the example service (cmd/main.go, \<open>/patch-test\<close>): a body with
  the strings \<open>foo\<close> and \<open>bar\<close>; and an environment that decodes two patch bodies.
\<close>

definition patch_schema :: schema where
  "patch_schema =
     Node (Some TObject) False no_cons None
       [(''foo'', Node (Some TString) False no_cons None [] [] AnyAdditional),
        (''bar'', Node (Some TString) False no_cons None [] [] AnyAdditional)]
       [''foo'', ''bar''] AnyAdditional"

definition sample_env :: "unit patch_env" where
  "sample_env =
     \<lparr>shorthand_type = ''application/merge-patch+shorthand'',
      parse_json = (\<lambda>b. if b = ''{foo: baz}'' then Some (JObj [(''foo'', JStr ''baz'')])
                         else if b = ''{foo: 1}'' then Some (JObj [(''foo'', JNum 1)])
                         else None),
      parse_shorthand = (\<lambda>b. None),
      parse_json_patch = (\<lambda>b. None),
      apply_json_patch = (\<lambda>ops doc. None)\<rparr>"

definition sample_get :: get_result where
  "sample_get =
     \<lparr>g_body = JObj [(''foo'', JStr ''foo''), (''bar'', JStr ''bar'')],
      g_etag = Some ''abc123'', g_last_modified = None\<rparr>"

section \<open>Properties of the string helpers\<close>

lemma Contains_iff: "Contains s sub \<longleftrightarrow> (\<exists>pre post. s = pre @ sub @ post)"
proof (induction s)
  case Nil
  then show ?case by auto
next
  case (Cons c cs)
  show ?case
  proof
    assume "Contains (c # cs) sub"
    then consider "take (length sub) (c # cs) = sub" | "Contains cs sub" by auto
    then show "\<exists>pre post. c # cs = pre @ sub @ post"
    proof cases
      case 1
      then have "c # cs = [] @ sub @ drop (length sub) (c # cs)"
        by (metis append_Nil append_take_drop_id)
      then show ?thesis by blast
    next
      case 2
      with Cons.IH obtain pre post where "cs = pre @ sub @ post" by blast
      then have "c # cs = (c # pre) @ sub @ post" by simp
      then show ?thesis by blast
    qed
  next
    assume "\<exists>pre post. c # cs = pre @ sub @ post"
    then obtain pre post where e: "c # cs = pre @ sub @ post" by blast
    show "Contains (c # cs) sub"
    proof (cases pre)
      case Nil
      with e have "take (length sub) (c # cs) = sub" by simp
      then show ?thesis by simp
    next
      case (Cons p ps)
      with e have "cs = ps @ sub @ post" by simp
      with Cons.IH have "Contains cs sub" by blast
      then show ?thesis by simp
    qed
  qed
qed

lemma ReplaceAll_single:
  "ReplaceAll s [x] new = concat (map (\<lambda>c. if c = x then new else [c]) s)"
  by (induction s) auto

lemma ReplaceAll_absent: "x \<notin> set s \<Longrightarrow> ReplaceAll s [x] new = s"
  by (induction s) auto

section \<open>The example resolver\<close>

text \<open>
  Claim C9.  \<open>GreetingInputBody.Resolve\<close> returns a non-empty error list if and
  only if the \<open>Suffix\<close> field contains the substring \<open>err\<close>; a non-empty list holds
  exactly one error detail, with location \<open>body.suffix\<close> and the suffix as its value;
  the body is left as it was.
\<close>

theorem Resolve_err_iff_suffix:
  "(fst (Resolve b) \<noteq> []) = (\<exists>pre post. Suffix b = pre @ ''err'' @ post)
   \<and> (fst (Resolve b) \<noteq> [] \<longrightarrow>
        fst (Resolve b) =
          [\<lparr>Location = ''body.suffix'', Message = ''Nested resolver works'',
            Value = Suffix b\<rparr>])
   \<and> snd (Resolve b) = b"
  by (simp add: Resolve_def Contains_iff)

theorem Resolve_err_iff_suffix_witness:
  "fst (Resolve \<lparr>Suffix = ''xerr'', Optional = 2\<rparr>) =
     [\<lparr>Location = ''body.suffix'', Message = ''Nested resolver works'', Value = ''xerr''\<rparr>]
   \<and> (\<exists>pre post. ''xerr'' = pre @ ''err'' @ post)
   \<and> fst (Resolve \<lparr>Suffix = ''!'', Optional = 2\<rparr>) = []
   \<and> (\<nexists>pre post. ''!'' = pre @ ''err'' @ post)"
proof -
  have a: "fst (Resolve \<lparr>Suffix = ''xerr'', Optional = 2\<rparr>) \<noteq> []"
    by (simp add: Resolve_def)
  have b: "fst (Resolve \<lparr>Suffix = ''!'', Optional = 2\<rparr>) = []"
    by (simp add: Resolve_def)
  from a b show ?thesis
    using Resolve_err_iff_suffix [of "\<lparr>Suffix = ''xerr'', Optional = 2\<rparr>"]
      Resolve_err_iff_suffix [of "\<lparr>Suffix = ''!'', Optional = 2\<rparr>"]
    by simp
qed

section \<open>Route registration in the adapters\<close>

text \<open>
  Claim C10.  The gin adapter registers an operation under the path in which every
  \<open>{\<close> is replaced by \<open>:\<close> and every \<open>}\<close> is deleted, so \<open>/greeting/{name}\<close>
  becomes \<open>/greeting/:name\<close>; a path without braces is registered unchanged.  The
  routes registered before stay as they are.
\<close>

theorem gin_Handle_converts_path:
  "map gin_path (gin_router (gin_Handle a method path handler)) =
     map gin_path (gin_router a) @
       [concat (map (\<lambda>c. if c = CHR ''{'' then '':''
                         else if c = CHR ''}'' then [] else [c]) path)]
   \<and> gin_method (last (gin_router (gin_Handle a method path handler))) = method
   \<and> gin_path (last (gin_router (gin_Handle a method ''/greeting/{name}'' handler))) =
       ''/greeting/:name''
   \<and> (CHR ''{'' \<notin> set path \<and> CHR ''}'' \<notin> set path \<longrightarrow>
        gin_path (last (gin_router (gin_Handle a method path handler))) = path)"
proof -
  have two: "ReplaceAll (ReplaceAll p ''{'' '':'') ''}'' [] =
      concat (map (\<lambda>c. if c = CHR ''{'' then '':''
                        else if c = CHR ''}'' then [] else [c]) p)" for p
    by (induction p) (simp_all add: ReplaceAll_single)
  have same: "ReplaceAll (ReplaceAll path ''{'' '':'') ''}'' [] = path"
    if "CHR ''{'' \<notin> set path" "CHR ''}'' \<notin> set path"
    using that by (simp add: ReplaceAll_absent)
  show ?thesis
    using same by (simp add: gin_Handle_def Let_def two)
qed

theorem gin_Handle_converts_path_witness:
  "CHR ''{'' \<notin> set ''/no-body'' \<and> CHR ''}'' \<notin> set ''/no-body''
   \<and> gin_path (last (gin_router
         (gin_Handle \<lparr>gin_router = []\<rparr> ''GET'' ''/no-body'' (\<lambda>c::nat ginCtx. orig c)))) = ''/no-body''
   \<and> map gin_path (gin_router
         (gin_Handle \<lparr>gin_router = []\<rparr> ''POST'' ''/foo/{id}'' (\<lambda>c::nat ginCtx. orig c))) = [''/foo/:id'']"
  using gin_Handle_converts_path
      [of "\<lparr>gin_router = []\<rparr>" "''GET''" "''/no-body''" "\<lambda>c::nat ginCtx. orig c"]
    gin_Handle_converts_path
      [of "\<lparr>gin_router = []\<rparr>" "''POST''" "''/foo/{id}''" "\<lambda>c::nat ginCtx. orig c"]
  by simp

text \<open>
  The function that the gorilla/mux adapter registers for an operation calls the
  huma handler exactly when the request's method equals the operation's \<open>Method\<close>,
  and otherwise leaves the response untouched.  The route is registered under the
  operation's path, after the routes registered before.
\<close>

lemma gmux_func_gate:
  "(req_Method r = Method op \<longrightarrow>
      gmux_func op handler st r =
        \<lparr>response = handler \<lparr>ctx_op = op, ctx_r = r, ctx_w = response st\<rparr>,
         invoked = invoked st @ [\<lparr>ctx_op = op, ctx_r = r, ctx_w = response st\<rparr>]\<rparr>)
   \<and> (req_Method r \<noteq> Method op \<longrightarrow> gmux_func op handler st r = st)"
  by (simp add: gmux_func_def Let_def)

lemma gmux_Handle_routes:
  "mux_router (gmux_Handle a op handler) =
     mux_router a @ [\<lparr>mux_path = Path op, mux_func = gmux_func op handler\<rparr>]"
  by (simp add: gmux_Handle_def)

text \<open>The router serves a request with the first route whose path matches.\<close>

lemma mux_dispatch_first:
  "\<forall>rt' \<in> set pre. \<not> path_matches lib (mux_path rt') (req_Path r) \<Longrightarrow>
   path_matches lib (mux_path rt) (req_Path r) \<Longrightarrow>
   mux_dispatch lib (pre @ rt # post) st r = mux_func rt st r"
  by (induction pre) simp_all

text \<open>
  When the operation's route is the first whose path matches the request, the
  adapter calls its handler if and only if the methods are equal.
\<close>

lemma gmux_ServeHTTP_first_route:
  assumes "\<forall>rt' \<in> set (mux_router a). \<not> path_matches lib (mux_path rt') (req_Path r)"
    and "path_matches lib (Path op) (req_Path r)"
  shows "gmux_ServeHTTP lib (gmux_Handle a op handler) st r = gmux_func op handler st r"
  using mux_dispatch_first [of "mux_router a" lib r
      "\<lparr>mux_path = Path op, mux_func = gmux_func op handler\<rparr>" "[]" st] assms
  by (simp add: gmux_ServeHTTP_def gmux_Handle_routes)

text \<open>
  An operation registered after another one whose path matches the same request
  is never reached: the earlier route takes the request, and when the request's
  method is not the earlier operation's, nothing is called and nothing is written.
\<close>

lemma gmux_ServeHTTP_shadowed:
  assumes "\<forall>rt' \<in> set (mux_router a). \<not> path_matches lib (mux_path rt') (req_Path r)"
    and "path_matches lib (Path op1) (req_Path r)"
    and "req_Method r \<noteq> Method op1"
  shows "gmux_ServeHTTP lib (gmux_Handle (gmux_Handle a op1 h1) op2 h2) st r = st"
proof -
  have "mux_router (gmux_Handle (gmux_Handle a op1 h1) op2 h2) =
      mux_router a @ \<lparr>mux_path = Path op1, mux_func = gmux_func op1 h1\<rparr> #
        [\<lparr>mux_path = Path op2, mux_func = gmux_func op2 h2\<rparr>]"
    by (simp add: gmux_Handle_routes)
  then have "gmux_ServeHTTP lib (gmux_Handle (gmux_Handle a op1 h1) op2 h2) st r =
      gmux_func op1 h1 st r"
    using mux_dispatch_first [of "mux_router a" lib r
        "\<lparr>mux_path = Path op1, mux_func = gmux_func op1 h1\<rparr>"
        "[\<lparr>mux_path = Path op2, mux_func = gmux_func op2 h2\<rparr>]" st] assms(1,2)
    by (simp add: gmux_ServeHTTP_def)
  with assms(3) show ?thesis by (simp add: gmux_func_def Let_def)
qed

text \<open>
  Claim C8.  The claim asks that for every operation registered through \<open>Handle\<close>
  and every request that matches its path, the operation's handler be called when
  the request's method equals the operation's \<open>Method\<close>.  The adapter does not do
  this for the two operations of the example service on \<open>/patch-test\<close>, registered
  as \<open>RegisterRoutes\<close> registers them: a \<open>PUT\<close> request on \<open>/patch-test\<close> matches
  the path of the \<open>patch-put\<close> route and has its method, yet the router gives the
  request to the \<open>patch-get\<close> route registered first, whose function sees another
  method and returns: no handler is called and nothing is written.  The same
  request is served when \<open>patch-put\<close> is the only operation on the path.
\<close>

theorem gmux_put_after_get_unserved:
  "req_Method \<lparr>req_Method = ''PUT'', req_Path = ''/patch-test''\<rparr> = Method patch_put_op
   \<and> path_matches exact_paths (Path patch_put_op)
        (req_Path \<lparr>req_Method = ''PUT'', req_Path = ''/patch-test''\<rparr>)
   \<and> map mux_path (mux_router patch_test_mux) = [''/patch-test'', ''/patch-test'']
   \<and> gmux_ServeHTTP exact_paths patch_test_mux \<lparr>response = [], invoked = []\<rparr>
        \<lparr>req_Method = ''PUT'', req_Path = ''/patch-test''\<rparr> =
       \<lparr>response = [], invoked = []\<rparr>
   \<and> response (gmux_ServeHTTP exact_paths
         (gmux_Handle \<lparr>mux_router = []\<rparr> patch_put_op (\<lambda>c. ctx_w c @ [''put'']))
         \<lparr>response = [], invoked = []\<rparr>
         \<lparr>req_Method = ''PUT'', req_Path = ''/patch-test''\<rparr>) = [''put'']"
  by (simp add: patch_test_mux_def patch_get_op_def patch_put_op_def exact_paths_def
      gmux_ServeHTTP_def gmux_Handle_def gmux_func_def Let_def)

section \<open>The validator reports nothing exactly on the values that satisfy the schema\<close>

lemma check_Nil [simp]: "check b p c v = [] \<longleftrightarrow> \<not> b"
  by (simp add: check_def)








lemma format_errs_other [simp]:
  "format_errs K c JNull p = []" "format_errs K c (JBool b) p = []"
  "format_errs K c (JNum q) p = []" "format_errs K c (JArr xs) p = []"
  "format_errs K c (JObj kvs) p = []"
  by (simp_all add: format_errs_def)




section \<open>The validator reports every violation, once, at its path\<close>














lemma once_simps [simp]: "once True = 1" "once False = 0"
  by (simp_all add: once_def)

















lemma resolve_Node [simp]:
  "resolve reg (Node ty nullable c items props req addl) = Some (Node ty nullable c items props req addl)"
  by (simp add: resolve_def)






















section \<open>The generated PATCH\<close>

text \<open>
  Claim C6.  The merge strategy of a generated PATCH depends on the request's
  Content-Type alone: two requests with the same Content-Type get the same
  strategy.  JSON Merge Patch is chosen for \<open>application/merge-patch+json\<close>, for an
  absent Content-Type and for generic JSON; JSON Patch for
  \<open>application/json-patch+json\<close>; shorthand merge patch for the vendor shorthand
  content type (a type of its own, none of the three above).
\<close>

theorem strategy_from_content_type:
  "(pr_content_type r1 = pr_content_type r2 \<longrightarrow>
      chosen_strategy env r1 = chosen_strategy env r2)
   \<and> (pr_content_type r \<in> {None, Some ''application/merge-patch+json'',
                             Some ''application/json''} \<longrightarrow>
        chosen_strategy env r = Some JSONMergePatch)
   \<and> (pr_content_type r = Some ''application/json-patch+json'' \<longrightarrow>
        chosen_strategy env r = Some JSONPatch)
   \<and> (pr_content_type r = Some (shorthand_type env) \<and>
        shorthand_type env \<notin> {''application/merge-patch+json'', ''application/json'',
                                 ''application/json-patch+json''} \<longrightarrow>
        chosen_strategy env r = Some ShorthandMergePatch)"
proof (intro conjI impI)
  assume "pr_content_type r1 = pr_content_type r2"
  then show "chosen_strategy env r1 = chosen_strategy env r2"
    by (simp add: chosen_strategy_def)
next
  assume "pr_content_type r \<in> {None, Some ''application/merge-patch+json'',
                             Some ''application/json''}"
  then consider "pr_content_type r = None"
    | "pr_content_type r = Some ''application/merge-patch+json''"
    | "pr_content_type r = Some ''application/json''"
    by auto
  then show "chosen_strategy env r = Some JSONMergePatch"
    by cases (simp_all add: chosen_strategy_def mergeStrategy_def)
next
  assume "pr_content_type r = Some ''application/json-patch+json''"
  then show "chosen_strategy env r = Some JSONPatch"
    by (simp add: chosen_strategy_def mergeStrategy_def)
next
  assume "pr_content_type r = Some (shorthand_type env) \<and>
        shorthand_type env \<notin> {''application/merge-patch+json'', ''application/json'',
                                 ''application/json-patch+json''}"
  then show "chosen_strategy env r = Some ShorthandMergePatch"
    by (simp add: chosen_strategy_def mergeStrategy_def)
qed

theorem strategy_from_content_type_witness:
  "chosen_strategy sample_env \<lparr>pr_content_type = None, pr_body = ''{foo: baz}''\<rparr> =
     Some JSONMergePatch
   \<and> chosen_strategy sample_env
        \<lparr>pr_content_type = Some ''application/json'', pr_body = ''{foo: 1}''\<rparr> =
       Some JSONMergePatch
   \<and> chosen_strategy sample_env
        \<lparr>pr_content_type = Some ''application/json-patch+json'', pr_body = []\<rparr> =
       Some JSONPatch
   \<and> chosen_strategy sample_env
        \<lparr>pr_content_type = Some ''application/merge-patch+shorthand'', pr_body = []\<rparr> =
       Some ShorthandMergePatch
   \<and> chosen_strategy sample_env
        \<lparr>pr_content_type = Some ''application/merge-patch+shorthand'', pr_body = ''x''\<rparr> =
       chosen_strategy sample_env
        \<lparr>pr_content_type = Some ''application/merge-patch+shorthand'', pr_body = []\<rparr>"
  using
    strategy_from_content_type [of
      "\<lparr>pr_content_type = Some ''application/merge-patch+shorthand'', pr_body = ''x''\<rparr>"
      "\<lparr>pr_content_type = Some ''application/merge-patch+shorthand'', pr_body = []\<rparr>"
      sample_env "\<lparr>pr_content_type = None, pr_body = ''{foo: baz}''\<rparr>"]
    strategy_from_content_type [of
      "\<lparr>pr_content_type = None, pr_body = []\<rparr>" "\<lparr>pr_content_type = None, pr_body = []\<rparr>"
      sample_env "\<lparr>pr_content_type = Some ''application/json'', pr_body = ''{foo: 1}''\<rparr>"]
    strategy_from_content_type [of
      "\<lparr>pr_content_type = None, pr_body = []\<rparr>" "\<lparr>pr_content_type = None, pr_body = []\<rparr>"
      sample_env "\<lparr>pr_content_type = Some ''application/json-patch+json'', pr_body = []\<rparr>"]
    strategy_from_content_type [of
      "\<lparr>pr_content_type = None, pr_body = []\<rparr>" "\<lparr>pr_content_type = None, pr_body = []\<rparr>"
      sample_env
      "\<lparr>pr_content_type = Some ''application/merge-patch+shorthand'', pr_body = []\<rparr>"]
  by (simp add: sample_env_def)

lemma patchHandler_calls:
  "put_calls (patchHandler env K reg outSchema got put req) =
     (case candidate env (g_body got) req of
        Inl e \<Rightarrow> []
      | Inr c \<Rightarrow>
          if validate K reg outSchema c ''body'' = []
          then [\<lparr>p_body = c, p_if_match = g_etag got,
                 p_if_unmodified_since = g_last_modified got\<rparr>]
          else [])"
  by (simp add: patchHandler_def Let_def split: sum.splits list.splits)

lemma candidate_unparsable:
  "(chosen_strategy env req = Some JSONMergePatch \<and> parse_json env (pr_body req) = None) \<or>
   (chosen_strategy env req = Some ShorthandMergePatch \<and>
      parse_shorthand env (pr_body req) = None) \<or>
   (chosen_strategy env req = Some JSONPatch \<and> parse_json_patch env (pr_body req) = None)
   \<Longrightarrow> candidate env current req = Inl UnparsablePatch"
  by (auto simp: candidate_def)

text \<open>
  Claim C7.  The JSON Merge Patch \<open>{"foo":"bar"}\<close> applied to
  \<open>{"foo":"baz","other":1}\<close> gives exactly \<open>{"foo":"bar","other":1}\<close>.  Every call a
  generated PATCH makes to PUT's handler passes the merged candidate, and that
  candidate has passed validation against the resource's output schema node; a
  candidate with validation errors is answered with a client error.  When the
  chosen strategy cannot parse the patch body, the request fails with a client
  error and PUT's handler is not called.
\<close>

theorem patch_validated_before_put:
  "mergePatch (JObj [(''foo'', JStr ''baz''), (''other'', JNum 1)])
       (JObj [(''foo'', JStr ''bar'')]) =
     JObj [(''foo'', JStr ''bar''), (''other'', JNum 1)]
   \<and> (\<forall>fwd \<in> set (put_calls (patchHandler env K reg outSchema got put req)).
         candidate env (g_body got) req = Inr (p_body fwd) \<and>
         validate K reg outSchema (p_body fwd) ''body'' = [] \<and>
         outcome (patchHandler env K reg outSchema got put req) = Inr (put fwd))
   \<and> (\<forall>c. candidate env (g_body got) req = Inr c \<and>
            validate K reg outSchema c ''body'' \<noteq> [] \<longrightarrow>
         patchHandler env K reg outSchema got put req =
           \<lparr>outcome = Inl (InvalidCandidate (validate K reg outSchema c ''body'')),
            put_calls = []\<rparr>)
   \<and> ((chosen_strategy env req = Some JSONMergePatch \<and>
          parse_json env (pr_body req) = None) \<or>
       (chosen_strategy env req = Some ShorthandMergePatch \<and>
          parse_shorthand env (pr_body req) = None) \<or>
       (chosen_strategy env req = Some JSONPatch \<and>
          parse_json_patch env (pr_body req) = None) \<longrightarrow>
         patchHandler env K reg outSchema got put req =
           \<lparr>outcome = Inl UnparsablePatch, put_calls = []\<rparr>)"
proof (intro conjI)
  show "mergePatch (JObj [(''foo'', JStr ''baz''), (''other'', JNum 1)])
       (JObj [(''foo'', JStr ''bar'')]) =
     JObj [(''foo'', JStr ''bar''), (''other'', JNum 1)]"
    by simp
next
  show "\<forall>fwd \<in> set (put_calls (patchHandler env K reg outSchema got put req)).
         candidate env (g_body got) req = Inr (p_body fwd) \<and>
         validate K reg outSchema (p_body fwd) ''body'' = [] \<and>
         outcome (patchHandler env K reg outSchema got put req) = Inr (put fwd)"
    by (auto simp: patchHandler_def Let_def split: sum.splits list.splits)
next
  show "\<forall>c. candidate env (g_body got) req = Inr c \<and>
            validate K reg outSchema c ''body'' \<noteq> [] \<longrightarrow>
         patchHandler env K reg outSchema got put req =
           \<lparr>outcome = Inl (InvalidCandidate (validate K reg outSchema c ''body'')),
            put_calls = []\<rparr>"
    by (auto simp: patchHandler_def split: list.splits)
next
  show "(chosen_strategy env req = Some JSONMergePatch \<and>
          parse_json env (pr_body req) = None) \<or>
       (chosen_strategy env req = Some ShorthandMergePatch \<and>
          parse_shorthand env (pr_body req) = None) \<or>
       (chosen_strategy env req = Some JSONPatch \<and>
          parse_json_patch env (pr_body req) = None) \<longrightarrow>
         patchHandler env K reg outSchema got put req =
           \<lparr>outcome = Inl UnparsablePatch, put_calls = []\<rparr>"
    using candidate_unparsable [of env req "g_body got"]
    by (auto simp: patchHandler_def)
qed

lemma sample_patch_runs:
  "patchHandler sample_env lax [] patch_schema sample_get p_body
       \<lparr>pr_content_type = None, pr_body = ''{foo: baz}''\<rparr> =
     \<lparr>outcome = Inr (JObj [(''foo'', JStr ''baz''), (''bar'', JStr ''bar'')]),
      put_calls = [\<lparr>p_body = JObj [(''foo'', JStr ''baz''), (''bar'', JStr ''bar'')],
                    p_if_match = Some ''abc123'', p_if_unmodified_since = None\<rparr>]\<rparr>"
  by (simp add: patchHandler_def candidate_def chosen_strategy_def mergeStrategy_def
      sample_env_def sample_get_def patch_schema_def no_cons_def lax_def object_errs_def
      required_errs_def additional_errs_def format_errs_def enum_errs_def string_errs_def
      check_def Let_def)

lemma merge_when_absent: "chosen_strategy env \<lparr>pr_content_type = None, pr_body = b\<rparr> =
      Some JSONMergePatch"
    by (simp add: chosen_strategy_def mergeStrategy_def)

lemma sample_garbage: "parse_json sample_env ''garbage'' = None"
    by (simp add: sample_env_def)

lemma sample_candidate: "candidate sample_env (g_body sample_get)
       \<lparr>pr_content_type = None, pr_body = ''{foo: 1}''\<rparr> =
       Inr (JObj [(''foo'', JNum 1), (''bar'', JStr ''bar'')])"
    by (simp add: candidate_def merge_when_absent sample_env_def sample_get_def)


lemma sample_invalid: "validate lax [] patch_schema (JObj [(''foo'', JNum 1), (''bar'', JStr ''bar'')])
       ''body'' \<noteq> []"
    by (simp add: patch_schema_def no_cons_def lax_def check_def)

theorem patch_validated_before_put_witness:
  "put_calls (patchHandler sample_env lax [] patch_schema sample_get p_body
       \<lparr>pr_content_type = None, pr_body = ''{foo: baz}''\<rparr>) =
     [\<lparr>p_body = JObj [(''foo'', JStr ''baz''), (''bar'', JStr ''bar'')],
       p_if_match = Some ''abc123'', p_if_unmodified_since = None\<rparr>]
   \<and> validate lax [] patch_schema (JObj [(''foo'', JStr ''baz''), (''bar'', JStr ''bar'')])
       ''body'' = []
   \<and> chosen_strategy sample_env \<lparr>pr_content_type = None, pr_body = ''garbage''\<rparr> =
       Some JSONMergePatch
   \<and> parse_json sample_env ''garbage'' = None
   \<and> patchHandler sample_env lax [] patch_schema sample_get p_body
       \<lparr>pr_content_type = None, pr_body = ''garbage''\<rparr> =
       \<lparr>outcome = Inl UnparsablePatch, put_calls = []\<rparr>
   \<and> candidate sample_env (g_body sample_get)
       \<lparr>pr_content_type = None, pr_body = ''{foo: 1}''\<rparr> =
       Inr (JObj [(''foo'', JNum 1), (''bar'', JStr ''bar'')])
   \<and> put_calls (patchHandler sample_env lax [] patch_schema sample_get p_body
       \<lparr>pr_content_type = None, pr_body = ''{foo: 1}''\<rparr>) = []"
proof -
  let ?run = "patchHandler sample_env lax [] patch_schema sample_get p_body"
  let ?ok = "\<lparr>pr_content_type = None, pr_body = ''{foo: baz}''\<rparr>"
  let ?garbage = "\<lparr>pr_content_type = None, pr_body = ''garbage''\<rparr>"
  let ?num = "\<lparr>pr_content_type = None, pr_body = ''{foo: 1}''\<rparr>"
  let ?fwd = "\<lparr>p_body = JObj [(''foo'', JStr ''baz''), (''bar'', JStr ''bar'')],
       p_if_match = Some ''abc123'', p_if_unmodified_since = None\<rparr>"
  have calls: "put_calls (?run ?ok) = [?fwd]"
    by (simp add: sample_patch_runs)
  note ok = patch_validated_before_put
      [of sample_env lax "[]" patch_schema sample_get p_body ?ok,
        THEN conjunct2, THEN conjunct1]
  have "?fwd \<in> set (put_calls (?run ?ok))"
    unfolding calls by simp
  with ok have "validate lax [] patch_schema (p_body ?fwd) ''body'' = []"
    by blast
  then have valid: "validate lax [] patch_schema
      (JObj [(''foo'', JStr ''baz''), (''bar'', JStr ''bar'')]) ''body'' = []"
    by simp
  have s: "chosen_strategy sample_env ?garbage = Some JSONMergePatch"
    by (rule merge_when_absent)
  have g: "parse_json sample_env (pr_body ?garbage) = None"
    by (simp add: sample_env_def)
  note unparsable = patch_validated_before_put
      [of sample_env lax "[]" patch_schema sample_get p_body ?garbage,
        THEN conjunct2, THEN conjunct2, THEN conjunct2]
  from s g unparsable have rejected:
      "?run ?garbage = \<lparr>outcome = Inl UnparsablePatch, put_calls = []\<rparr>"
    by blast
  note invalid = patch_validated_before_put
      [of sample_env lax "[]" patch_schema sample_get p_body ?num,
        THEN conjunct2, THEN conjunct2, THEN conjunct1]
  from invalid sample_candidate sample_invalid have "?run ?num =
      \<lparr>outcome = Inl (InvalidCandidate (validate lax [] patch_schema
          (JObj [(''foo'', JNum 1), (''bar'', JStr ''bar'')]) ''body'')), put_calls = []\<rparr>"
    by blast
  then have none: "put_calls (?run ?num) = []"
    by simp
  from calls valid s g rejected sample_candidate none show ?thesis
    by simp
qed

end
